theory Spec2Isabelle
  imports Main "HOL-Library.Word"
begin

section \<open>Values shared by the three engine adapters\<close>

text \<open>
  The adapter layer is effectful TypeScript. The embedding makes every effect a value:
  a thrown JavaScript value is the left summand of a sum, a promise is one of three
  settled/unsettled states, an engine primitive the adapter invokes is recorded in a
  call log, and a mutable engine object lives in a store indexed by its handle.
\<close>

type_synonym bytes = "8 word list"

datatype js_exception = JsError string | JsTypeError string

datatype 'a promise = Resolved 'a | Rejected js_exception | Pending

text \<open>\<^verbatim>\<open>RuntimeBuffer = string | ArrayBufferLike | Blob | ArrayBufferView\<close>\<close>

datatype RuntimeBuffer = Text string | Binary bytes

text \<open>\<^verbatim>\<open>enum WebsocketEventType\<close>, in the order of the source.\<close>

datatype WebsocketEventType = Message | Open | Close | Error

text \<open>
  The closed set of engine identifiers returned by \<^verbatim>\<open>getRuntime()\<close> of the external
  package \<^verbatim>\<open>@online/runtime\<close>; the five cases are those of the \<^verbatim>\<open>switch\<close> in
  \<^verbatim>\<open>serve\<close>. The detected runtime is a parameter of the model.
\<close>

datatype Runtime = Node | Deno | Bun | Unknown | Browser

record ITls =
  key :: string
  cert :: string

record NetAddr =
  transport :: string
  addr_hostname :: string
  addr_port :: nat

section \<open>Requests, responses and the user handler\<close>

record Blob =
  blob_bytes :: bytes
  blob_type :: string

text \<open>
  The canonical \<^verbatim>\<open>Request\<close>: the URL string and the \<^verbatim>\<open>{ method, headers, body }\<close>
  initialiser handed to the platform constructor.
\<close>

record Request =
  req_url :: string
  req_method :: string
  req_headers :: "string \<rightharpoonup> string"
  req_body :: "Blob option"

text \<open>
  The canonical \<^verbatim>\<open>Response\<close>. A body is a stream: the chunks its reader yields, then
  either the end of the stream (\<open>None\<close>) or a read failure.
\<close>

record Response =
  status :: nat
  statusText :: string
  res_headers :: "(string \<times> string) list"
  res_body :: "(bytes list \<times> js_exception option) option"

text \<open>
  A run of the user-supplied \<^verbatim>\<open>handler\<close>, seen from the adapter: it returns a
  response, throws (or returns a promise that rejects), or invokes the
  \<^verbatim>\<open>upgradeToWebSocket(data)\<close> capability and goes on according to what that call
  returned or threw.
\<close>

datatype 'd handler_run =
    Respond Response
  | Throw js_exception
  | UpgradeToWebSocket 'd "js_exception + bool \<Rightarrow> 'd handler_run"

text \<open>
  \<^verbatim>\<open>IServeOptions\<close>. The socket handler is an event sink whose own behaviour is not
  part of the layer: \<open>wsHandler\<close> says whether one was configured, and the calls made
  to it are the values the listeners below produce. Likewise \<open>signal\<close> says whether an
  abort signal was supplied.
\<close>

record 'd IServeOptions =
  handler :: "Request \<Rightarrow> 'd handler_run"
  port :: "nat option"
  hostname :: "string option"
  signal :: bool
  tls :: "ITls option"
  reusePort :: "bool option"
  wsHandler :: bool

primrec run_handler ::
  "('d \<Rightarrow> 's \<Rightarrow> (js_exception + bool) \<times> 's) \<Rightarrow> 'd handler_run \<Rightarrow> 's
    \<Rightarrow> (js_exception + Response) \<times> 's" where
  "run_handler up (Respond r) = (\<lambda>s. (Inr r, s))"
| "run_handler up (Throw e) = (\<lambda>s. (Inl e, s))"
| "run_handler up (UpgradeToWebSocket d k) =
     (\<lambda>s. case up d s of (res, s') \<Rightarrow> run_handler up (k res) s')"

section \<open>Server lifecycle\<close>

text \<open>The stop primitives of the three engines, as the adapters invoke them.\<close>

datatype teardown_call =
    Bun_server_stop bool
  | Deno_server_shutdown
  | Wss_close
  | Node_server_close bool

text \<open>
  The calls by which an adapter creates and starts a listener. \<open>Node_server_close\<close>
  above carries whether a completion callback was passed.
\<close>

record bun_params =
  bp_hostname :: "string option"
  bp_port :: "nat option"
  bp_reusePort :: "bool option"
  bp_cert :: "string option"
  bp_key :: "string option"
  bp_websocket :: bool

record deno_params =
  dp_hostname :: "string option"
  dp_port :: "nat option"
  dp_signal :: bool
  dp_cert :: "string option"
  dp_key :: "string option"
  dp_reusePort :: "bool option"

datatype engine_call =
    Bun_serve bun_params
  | Deno_serve deno_params
  | NodeHttp_createServer
  | NodeHttps_createServer string string
  | WebSocketServer_new
  | Server_listen nat "string option"

text \<open>
  \<^verbatim>\<open>IServer\<close>: each stop operation is the list of engine stop primitives it invokes.
  The members \<^verbatim>\<open>ref\<close> and \<^verbatim>\<open>unref\<close> are the engine's own methods, handed
  through as they are, and are left out.
\<close>

record IServer =
  srv_close :: "teardown_call list"
  addr :: NetAddr
  asyncDispose :: "teardown_call list"
  dispose :: "teardown_call list"

text \<open>
  What the engine reports back to an adapter: \<^verbatim>\<open>Bun.serve\<close> and \<^verbatim>\<open>Deno.serve\<close>
  throw or return a server with its bound address; for Node, \<^verbatim>\<open>server.address()\<close>
  inside the \<^verbatim>\<open>listen\<close> callback is an address record, a pipe name or \<^verbatim>\<open>null\<close>,
  the callback may never run (\<open>Inr None\<close>), and \<^verbatim>\<open>server.listen\<close> itself may throw
  (\<open>Inl\<close>), for instance on a port out of range.
\<close>

datatype node_address = AddressInfo string nat | Pipe_name string | Address_null

record engine_env =
  bun_server :: "js_exception + string \<times> nat"
  deno_server :: "js_exception + NetAddr"
  node_listening :: "js_exception + node_address option"

text \<open>
  The observable result of one call of an engine's \<^verbatim>\<open>serve\<close>: the engine calls made,
  the listener the adapter itself installs on \<^verbatim>\<open>options.signal\<close> (if any), and the
  promise handed back.
\<close>

record serve_result =
  engine_calls :: "engine_call list"
  abort_listener :: "teardown_call list option"
  returned :: "IServer promise"

definition bunServe :: "'d IServeOptions \<Rightarrow> engine_env \<Rightarrow> serve_result" where
  "bunServe options env =
     (let params = \<lparr> bp_hostname = hostname options, bp_port = port options,
                     bp_reusePort = reusePort options,
                     bp_cert = map_option cert (tls options),
                     bp_key = map_option key (tls options),
                     bp_websocket = wsHandler options \<rparr>
      in case bun_server env of
           Inl e \<Rightarrow> \<lparr> engine_calls = [Bun_serve params], abort_listener = None,
                      returned = Rejected e \<rparr>
         | Inr (server_hostname, server_port) \<Rightarrow>
             (let stopServer = [Bun_server_stop True]
              in \<lparr> engine_calls = [Bun_serve params],
                   abort_listener = (if signal options then Some stopServer else None),
                   returned = Resolved
                     \<lparr> srv_close = stopServer,
                       addr = \<lparr> transport = ''tcp'', addr_hostname = server_hostname,
                                addr_port = server_port \<rparr>,
                       asyncDispose = stopServer,
                       dispose = stopServer \<rparr> \<rparr>))"

definition denoServe :: "'d IServeOptions \<Rightarrow> engine_env \<Rightarrow> serve_result" where
  "denoServe options env =
     (let params = \<lparr> dp_hostname = hostname options, dp_port = port options,
                     dp_signal = signal options,
                     dp_cert = map_option cert (tls options),
                     dp_key = map_option key (tls options),
                     dp_reusePort = reusePort options \<rparr>
      in case deno_server env of
           Inl e \<Rightarrow> \<lparr> engine_calls = [Deno_serve params], abort_listener = None,
                      returned = Rejected e \<rparr>
         | Inr server_addr \<Rightarrow>
             \<lparr> engine_calls = [Deno_serve params],
               abort_listener = None,
               returned = Resolved
                 \<lparr> srv_close = [Deno_server_shutdown],
                   addr = server_addr,
                   asyncDispose = [Deno_server_shutdown],
                   dispose = [Deno_server_shutdown] \<rparr> \<rparr>)"

text \<open>\<^verbatim>\<open>wss?.close()\<close>: the socket server exists exactly when a socket handler was given.\<close>

definition wss_close :: "bool \<Rightarrow> teardown_call list" where
  "wss_close wss = (if wss then [Wss_close] else [])"

text \<open>
  \<^verbatim>\<open>nodeServe\<close>. The promise it returns is built around \<^verbatim>\<open>server.listen\<close>: an
  exception of that call, raised inside the promise executor, rejects it; the
  \<^verbatim>\<open>throw new Error("Invalid address")\<close> of the callback is raised outside of it and
  leaves the promise pending.
\<close>

definition nodeServe :: "'d IServeOptions \<Rightarrow> engine_env \<Rightarrow> serve_result" where
  "nodeServe options env =
     (let wss = wsHandler options;
          close = wss_close wss @ [Node_server_close True];
          listenPromise =
            (case node_listening env of
               Inl e \<Rightarrow> Rejected e
             | Inr None \<Rightarrow> Pending
             | Inr (Some Address_null) \<Rightarrow> Pending
             | Inr (Some (Pipe_name p)) \<Rightarrow> Pending
             | Inr (Some (AddressInfo address bound_port)) \<Rightarrow>
                 Resolved \<lparr> srv_close = close,
                            addr = \<lparr> transport = ''tcp'', addr_hostname = address,
                                     addr_port = bound_port \<rparr>,
                            asyncDispose = close,
                            dispose = close \<rparr>)
      in \<lparr> engine_calls =
             [case tls options of
                Some t \<Rightarrow> NodeHttps_createServer (key t) (cert t)
              | None \<Rightarrow> NodeHttp_createServer]
             @ (if wss then [WebSocketServer_new] else [])
             @ [Server_listen (case port options of None \<Rightarrow> 0 | Some p \<Rightarrow> p)
                  (hostname options)],
           abort_listener =
             (if signal options then Some (wss_close wss @ [Node_server_close False])
              else None),
           returned = listenPromise \<rparr>)"

text \<open>
  \<^verbatim>\<open>serve\<close> is not an \<^verbatim>\<open>async\<close> function: the two \<^verbatim>\<open>throw\<close> statements raise
  synchronously, before any promise exists.
\<close>

definition serve :: "Runtime \<Rightarrow> 'd IServeOptions \<Rightarrow> engine_env \<Rightarrow> js_exception + serve_result" where
  "serve runtime options env =
     (case runtime of
        Node \<Rightarrow> Inr (nodeServe options env)
      | Deno \<Rightarrow> Inr (denoServe options env)
      | Bun \<Rightarrow> Inr (bunServe options env)
      | Unknown \<Rightarrow> Inl (JsError ''Could not determine runtime.'')
      | Browser \<Rightarrow> Inl (JsError ''There is not serve for the browser.''))"

text \<open>The engine calls a call of \<^verbatim>\<open>serve\<close> has made when it returns or throws.\<close>

definition calls_made :: "js_exception + serve_result \<Rightarrow> engine_call list" where
  "calls_made r = (case r of Inl e \<Rightarrow> [] | Inr res \<Rightarrow> engine_calls res)"

section \<open>The canonical socket adapter\<close>

text \<open>
  An engine-native socket handle, as far as the adapters read it: its ready-state, binary
  type, buffered byte count and (Bun) the \<^verbatim>\<open>data\<close> attached at upgrade time. The
  transmit and close primitives belong to the engine; the model records the arguments each
  invocation receives. Handles are references: the sockets live in a store indexed by
  handle, and a method of an adapter reads the store at the moment it is invoked.
\<close>

record 'd native_socket =
  nat_readyState :: nat
  nat_binaryType :: "string option"
  nat_bufferedAmount :: nat
  nat_data :: "'d option"
  nat_send_calls :: "RuntimeBuffer list"
  nat_close_calls :: "(nat option \<times> string option) list"

type_synonym 'd sockets = "nat \<Rightarrow> 'd native_socket"

definition native_send :: "RuntimeBuffer \<Rightarrow> 'd native_socket \<Rightarrow> 'd native_socket" where
  "native_send payload ws = ws\<lparr> nat_send_calls := nat_send_calls ws @ [payload] \<rparr>"

definition native_close ::
  "nat option \<Rightarrow> string option \<Rightarrow> 'd native_socket \<Rightarrow> 'd native_socket" where
  "native_close code reason ws = ws\<lparr> nat_close_calls := nat_close_calls ws @ [(code, reason)] \<rparr>"

text \<open>
  A member of a JavaScript object is either a function or a plain value; invoking a
  member that is not a function throws a \<^verbatim>\<open>TypeError\<close>.
\<close>

datatype ('f, 'v) member = Function 'f | Value 'v

fun invoke :: "('s \<Rightarrow> 'a, 'v) member \<Rightarrow> 's \<Rightarrow> js_exception + 'a" where
  "invoke (Function f) s = Inr (f s)"
| "invoke (Value v) s = Inl (JsTypeError ''is not a function'')"

record 'd IRuntimeWebSocket =
  send :: "RuntimeBuffer \<Rightarrow> 'd sockets \<Rightarrow> 'd sockets"
  close :: "nat option \<Rightarrow> string option \<Rightarrow> 'd sockets \<Rightarrow> 'd sockets"
  getBufferedAmount :: "'d sockets \<Rightarrow> nat"
  readyState :: "('d sockets \<Rightarrow> nat, nat) member"
  binaryType :: "('d sockets \<Rightarrow> string option, string option) member"

definition bunWebsocketToRuntimeSocket :: "nat \<Rightarrow> 'd IRuntimeWebSocket" where
  "bunWebsocketToRuntimeSocket bunWebsocket =
     \<lparr> send = (\<lambda>data s. s(bunWebsocket := native_send data (s bunWebsocket))),
       close = (\<lambda>code reason s. s(bunWebsocket := native_close code reason (s bunWebsocket))),
       getBufferedAmount = (\<lambda>s. nat_bufferedAmount (s bunWebsocket)),
       readyState = Function (\<lambda>s. nat_readyState (s bunWebsocket)),
       binaryType = Function (\<lambda>s. nat_binaryType (s bunWebsocket)) \<rparr>"

definition denoWebsocketToRuntimeSocket :: "nat \<Rightarrow> 'd IRuntimeWebSocket" where
  "denoWebsocketToRuntimeSocket denoWebsocket =
     \<lparr> send = (\<lambda>data s. s(denoWebsocket := native_send data (s denoWebsocket))),
       close = (\<lambda>code reason s. s(denoWebsocket := native_close code reason (s denoWebsocket))),
       getBufferedAmount = (\<lambda>s. nat_bufferedAmount (s denoWebsocket)),
       readyState = Function (\<lambda>s. nat_readyState (s denoWebsocket)),
       binaryType = Function (\<lambda>s. nat_binaryType (s denoWebsocket)) \<rparr>"

text \<open>
  The \<^verbatim>\<open>runtimeWs\<close> object literal of \<^verbatim>\<open>nodeServe\<close>, built inside the
  \<^verbatim>\<open>connection\<close> callback when the store is \<open>s0\<close>. Its last two members are
  \<^verbatim>\<open>ws.readyState as ...\<close> and \<^verbatim>\<open>ws.binaryType as ...\<close>: the values read at
  that moment, not functions.
\<close>

definition node_runtimeWs :: "nat \<Rightarrow> 'd sockets \<Rightarrow> 'd IRuntimeWebSocket" where
  "node_runtimeWs ws s0 =
     \<lparr> send = (\<lambda>data s. s(ws := native_send data (s ws))),
       close = (\<lambda>code reason s. s(ws := native_close code reason (s ws))),
       getBufferedAmount = (\<lambda>s. nat_bufferedAmount (s ws)),
       readyState = Value (nat_readyState (s0 ws)),
       binaryType = Value (nat_binaryType (s0 ws)) \<rparr>"

section \<open>Socket events\<close>

record 'd IWebSocketHandlerOptions =
  websocket :: "'d IRuntimeWebSocket"
  event :: WebsocketEventType
  data :: "RuntimeBuffer option"
  error :: "js_exception option"
  context' :: "'d option"

text \<open>
  \<^verbatim>\<open>options.wsHandler!(x)\<close>: the call reaches the configured handler, or throws when
  none was configured.
\<close>

definition call_wsHandler ::
  "'d IServeOptions \<Rightarrow> 'd IWebSocketHandlerOptions \<Rightarrow> js_exception + 'd IWebSocketHandlerOptions" where
  "call_wsHandler options x =
     (if wsHandler options then Inr x
      else Inl (JsTypeError ''options.wsHandler is not a function''))"

text \<open>The notifications an engine-native socket emits, and the names they are emitted under.\<close>

datatype native_event =
    Open_event
  | Message_event RuntimeBuffer
  | Close_event
  | Error_event js_exception

fun event_name :: "native_event \<Rightarrow> string" where
  "event_name Open_event = ''open''"
| "event_name (Message_event m) = ''message''"
| "event_name Close_event = ''close''"
| "event_name (Error_event e) = ''error''"

fun event_data :: "native_event \<Rightarrow> RuntimeBuffer option" where
  "event_data (Message_event m) = Some m"
| "event_data ev = None"

fun event_error :: "native_event \<Rightarrow> js_exception option" where
  "event_error (Error_event e) = Some e"
| "event_error ev = None"

type_synonym 'd listener =
  "native_event \<Rightarrow> 'd sockets \<Rightarrow> js_exception + 'd IWebSocketHandlerOptions"

text \<open>
  A registration \<^verbatim>\<open>socket.on(name, f)\<close> / \<^verbatim>\<open>socket.addEventListener(name, f)\<close>.
  Emitting an event on a socket runs the listeners registered on that socket under the
  event's name, in registration order; an event nobody listens to is dropped.
\<close>

type_synonym 'd registrations = "(nat \<times> string \<times> 'd listener) list"

definition emit ::
  "'d registrations \<Rightarrow> nat \<Rightarrow> native_event \<Rightarrow> 'd sockets
    \<Rightarrow> (js_exception + 'd IWebSocketHandlerOptions) list" where
  "emit regs sock ev s =
     map (\<lambda>(h, n, f). f ev s) (filter (\<lambda>(h, n, f). h = sock \<and> n = event_name ev) regs)"

text \<open>
  The \<^verbatim>\<open>websocket\<close> member of the parameters of \<^verbatim>\<open>Bun.serve\<close>: an object with
  the keys \<^verbatim>\<open>message\<close>, \<^verbatim>\<open>open\<close> and \<^verbatim>\<open>close\<close>, or \<^verbatim>\<open>undefined\<close>. Bun passes
  the native socket to each of them.
\<close>

definition bun_websocket :: "'d IServeOptions \<Rightarrow> (string \<times> (nat \<Rightarrow> 'd listener)) list option" where
  "bun_websocket options =
     (if wsHandler options then
        Some [(''message'', \<lambda>ws ev s. call_wsHandler options
                 \<lparr> websocket = bunWebsocketToRuntimeSocket ws, event = Message,
                   data = event_data ev, error = None, context' = nat_data (s ws) \<rparr>),
              (''open'', \<lambda>ws ev s. call_wsHandler options
                 \<lparr> websocket = bunWebsocketToRuntimeSocket ws, event = Open,
                   data = None, error = None, context' = nat_data (s ws) \<rparr>),
              (''close'', \<lambda>ws ev s. call_wsHandler options
                 \<lparr> websocket = bunWebsocketToRuntimeSocket ws, event = Close,
                   data = None, error = None, context' = nat_data (s ws) \<rparr>)]
      else None)"

definition bun_emit ::
  "'d IServeOptions \<Rightarrow> nat \<Rightarrow> native_event \<Rightarrow> 'd sockets
    \<Rightarrow> (js_exception + 'd IWebSocketHandlerOptions) list" where
  "bun_emit options ws ev s =
     (case bun_websocket options of
        None \<Rightarrow> []
      | Some handlers \<Rightarrow>
          (case map_of handlers (event_name ev) of None \<Rightarrow> [] | Some f \<Rightarrow> [f ws ev s]))"

text \<open>The three \<^verbatim>\<open>denoSocket.addEventListener\<close> calls of \<^verbatim>\<open>denoServe\<close>.\<close>

definition deno_listeners :: "'d IServeOptions \<Rightarrow> nat \<Rightarrow> 'd \<Rightarrow> 'd registrations" where
  "deno_listeners options denoSocket data' =
     (let socket = denoWebsocketToRuntimeSocket denoSocket
      in [(denoSocket, ''open'', \<lambda>ev s. call_wsHandler options
             \<lparr> websocket = socket, event = Open, data = None, error = None,
               context' = Some data' \<rparr>),
          (denoSocket, ''message'', \<lambda>ev s. call_wsHandler options
             \<lparr> websocket = socket, event = Message, data = event_data ev, error = None,
               context' = Some data' \<rparr>),
          (denoSocket, ''close'', \<lambda>ev s. call_wsHandler options
             \<lparr> websocket = socket, event = Close, data = None, error = None,
               context' = Some data' \<rparr>)])"

text \<open>
  Node: \<^verbatim>\<open>upgradeData\<close> is a property the adapter sets on \<^verbatim>\<open>IncomingMessage\<close>
  objects; \<open>requests\<close> maps the handle of such an object to the property (\<open>None\<close> is
  \<^verbatim>\<open>undefined\<close>). The \<^verbatim>\<open>connection\<close> callback reads it once, dispatches the Open
  event itself and registers three listeners on the socket.
\<close>

type_synonym 'd requests = "nat \<Rightarrow> 'd option"

definition node_on_connection ::
  "'d IServeOptions \<Rightarrow> nat \<Rightarrow> nat \<Rightarrow> 'd requests \<Rightarrow> 'd sockets
    \<Rightarrow> (js_exception + 'd IWebSocketHandlerOptions) \<times> 'd registrations" where
  "node_on_connection options ws request R s0 =
     (let runtimeWs = node_runtimeWs ws s0;
          ctx = R request
      in (call_wsHandler options
            \<lparr> websocket = runtimeWs, event = Open, data = None, error = None,
              context' = ctx \<rparr>,
          [(ws, ''message'', \<lambda>ev s. call_wsHandler options
              \<lparr> websocket = runtimeWs, event = Message, data = event_data ev, error = None,
                context' = ctx \<rparr>),
           (ws, ''close'', \<lambda>ev s. call_wsHandler options
              \<lparr> websocket = runtimeWs, event = Close, data = None, error = None,
                context' = ctx \<rparr>),
           (ws, ''error'', \<lambda>ev s. call_wsHandler options
              \<lparr> websocket = runtimeWs, event = Error, data = None, error = event_error ev,
                context' = ctx \<rparr>)]))"

text \<open>
  \<^verbatim>\<open>if (options.wsHandler) { wss = new WebSocketServer(...); wss.on("connection", ...) }\<close>:
  the callback is installed only when a socket handler was configured.
\<close>

definition node_wss ::
  "'d IServeOptions \<Rightarrow> (nat \<Rightarrow> nat \<Rightarrow> 'd requests \<Rightarrow> 'd sockets
    \<Rightarrow> (js_exception + 'd IWebSocketHandlerOptions) \<times> 'd registrations) option" where
  "node_wss options = (if wsHandler options then Some (node_on_connection options) else None)"

text \<open>
  The calls the socket handler receives for a sequence of notifications, each paired with
  the store at the time it is emitted.
\<close>

definition deliver ::
  "(native_event \<Rightarrow> 'd sockets \<Rightarrow> (js_exception + 'd IWebSocketHandlerOptions) list)
    \<Rightarrow> (native_event \<times> 'd sockets) list \<Rightarrow> (js_exception + 'd IWebSocketHandlerOptions) list" where
  "deliver em evs = concat (map (\<lambda>(ev, s). em ev s) evs)"

section \<open>The upgrade capability\<close>

text \<open>
  Bun: \<^verbatim>\<open>(data) => { server.upgrade(request, { data }); return true; }\<close>. The engine's
  \<^verbatim>\<open>server.upgrade\<close> is a parameter: it throws or returns whether it accepted the
  upgrade. The state is the log of the \<^verbatim>\<open>server.upgrade\<close> calls made.
\<close>

definition bun_upgradeToWebSocket ::
  "(Request \<Rightarrow> 'd \<Rightarrow> js_exception + bool) \<Rightarrow> Request \<Rightarrow> 'd \<Rightarrow> (Request \<times> 'd) list
    \<Rightarrow> (js_exception + bool) \<times> (Request \<times> 'd) list" where
  "bun_upgradeToWebSocket server_upgrade request data' calls =
     (case server_upgrade request data' of
        Inl e \<Rightarrow> (Inl e, calls @ [(request, data')])
      | Inr accepted \<Rightarrow> (Inr True, calls @ [(request, data')]))"

text \<open>
  Deno: the state of one request while its handler runs. \<^verbatim>\<open>Deno.upgradeWebSocket\<close>
  is a parameter: given how many times it was called on this request before, it throws or
  returns a socket handle and the response of the handshake.
  \<^verbatim>\<open>Object.defineProperty\<close> without \<^verbatim>\<open>configurable\<close> and \<^verbatim>\<open>writable\<close> defines a
  property that cannot be defined again with another value: a second definition throws.
\<close>

record 'd deno_request =
  stupidDenoResponseMember :: "Response option"
  upgradeWebSocket_calls :: nat
  registered :: "'d registrations"

definition deno_request_fresh :: "'d deno_request" where
  "deno_request_fresh =
     \<lparr> stupidDenoResponseMember = None, upgradeWebSocket_calls = 0, registered = [] \<rparr>"

definition deno_upgradeToWebSocket ::
  "'d IServeOptions \<Rightarrow> (nat \<Rightarrow> js_exception + nat \<times> Response) \<Rightarrow> 'd \<Rightarrow> 'd deno_request
    \<Rightarrow> (js_exception + bool) \<times> 'd deno_request" where
  "deno_upgradeToWebSocket options upgradeWebSocket data' st =
     (let st1 = st\<lparr> upgradeWebSocket_calls := Suc (upgradeWebSocket_calls st) \<rparr>
      in case upgradeWebSocket (upgradeWebSocket_calls st) of
           Inl e \<Rightarrow> (Inl e, st1)
         | Inr (denoSocket, response) \<Rightarrow>
             (case stupidDenoResponseMember st1 of
                Some defined \<Rightarrow>
                  (Inl (JsTypeError ''Cannot redefine property: stupidDenoResponseMember''), st1)
              | None \<Rightarrow>
                  (Inr True,
                   st1\<lparr> stupidDenoResponseMember := Some response,
                        registered := registered st1 @ deno_listeners options denoSocket data' \<rparr>)))"

text \<open>
  Node: \<^verbatim>\<open>wss\<close> is defined exactly when a socket handler was configured; the capability
  stores the data on the request object of the \<^verbatim>\<open>request\<close> event and performs no
  handshake itself.
\<close>

definition node_upgradeToWebSocket ::
  "bool \<Rightarrow> nat \<Rightarrow> 'd \<Rightarrow> 'd requests \<Rightarrow> (js_exception + bool) \<times> 'd requests" where
  "node_upgradeToWebSocket wss req data' R =
     (if \<not> wss then (Inl (JsError ''WebSocket server not initialized''), R)
      else (Inr True, R(req := Some data')))"

section \<open>The request/response bridge\<close>

text \<open>
  Node's \<^verbatim>\<open>IncomingMessage\<close>: method, URL path, header object and the
  \<^verbatim>\<open>data\<close>/\<^verbatim>\<open>end\<close>/\<^verbatim>\<open>error\<close> notifications its body stream emits, in order.
\<close>

datatype stream_event = Data bytes | End | Stream_error js_exception

record IncomingMessage =
  msg_method :: string
  msg_url :: string
  msg_headers :: "string \<rightharpoonup> string"
  msg_events :: "stream_event list"

text \<open>
  The three listeners of \<^verbatim>\<open>incomingMessageToRequest\<close> over the notifications: a chunk is
  pushed, \<^verbatim>\<open>end\<close> resolves with the chunks pushed so far, \<^verbatim>\<open>error\<close> rejects. A
  promise settles once; a stream that emits neither leaves it pending.
\<close>

fun collect_chunks :: "stream_event list \<Rightarrow> bytes list \<Rightarrow> bytes list promise" where
  "collect_chunks [] chunks = Pending"
| "collect_chunks (Data chunk # evs) chunks = collect_chunks evs (chunks @ [chunk])"
| "collect_chunks (End # evs) chunks = Resolved chunks"
| "collect_chunks (Stream_error e # evs) chunks = Rejected e"

text \<open>A template literal prints \<^verbatim>\<open>undefined\<close> for a missing \<^verbatim>\<open>host\<close> header.\<close>

definition host_text :: "(string \<rightharpoonup> string) \<Rightarrow> string" where
  "host_text headers = (case headers ''host'' of None \<Rightarrow> ''undefined'' | Some h \<Rightarrow> h)"

text \<open>\<^verbatim>\<open>headers["content-type"] || "application/octet-stream"\<close>\<close>

definition content_type :: "(string \<rightharpoonup> string) \<Rightarrow> string" where
  "content_type headers =
     (case headers ''content-type'' of
        None \<Rightarrow> ''application/octet-stream''
      | Some t \<Rightarrow> if t = [] then ''application/octet-stream'' else t)"

text \<open>
  \<^verbatim>\<open>new Blob(chunks, { type })\<close> keeps a type made of printable ASCII characters
  only, in lower case; any other type becomes the empty string.
\<close>

definition ascii_lower :: "char \<Rightarrow> char" where
  "ascii_lower c =
     (let n = (of_char c :: nat) in if 65 \<le> n \<and> n \<le> 90 then char_of (n + 32) else c)"

definition Blob_type :: "string \<Rightarrow> string" where
  "Blob_type t =
     (if list_all (\<lambda>c. 32 \<le> (of_char c :: nat) \<and> (of_char c :: nat) \<le> 126) t
      then map ascii_lower t else [])"

text \<open>
  The platform constructors \<^verbatim>\<open>new URL\<close> and \<^verbatim>\<open>new Request\<close> are not code of
  this repository. Which texts the URL parser accepts (and the serialised URL it makes of
  them) and which methods and header objects the \<^verbatim>\<open>Request\<close> constructor refuses are
  parameters of the model; both constructors throw a \<^verbatim>\<open>TypeError\<close> on what they do
  not accept.
\<close>

record platform =
  URL_parse :: "string \<Rightarrow> string option"
  Request_refuses :: "string \<Rightarrow> (string \<rightharpoonup> string) \<Rightarrow> bool"

definition new_URL :: "platform \<Rightarrow> string \<Rightarrow> js_exception + string" where
  "new_URL pf text =
     (case URL_parse pf text of
        None \<Rightarrow> Inl (JsTypeError ''Invalid URL'')
      | Some href \<Rightarrow> Inr href)"

text \<open>
  \<^verbatim>\<open>new Request(url, { method, headers, body })\<close>, as the Fetch standard has it for the
  initialisers the bridge passes: the method and the headers are taken over, and when the
  body is a \<^verbatim>\<open>Blob\<close> with a type and the headers have no \<^verbatim>\<open>content-type\<close>, the
  type of the \<^verbatim>\<open>Blob\<close> becomes the \<^verbatim>\<open>content-type\<close> header of the request.
\<close>

definition new_Request ::
  "platform \<Rightarrow> string \<Rightarrow> string \<Rightarrow> (string \<rightharpoonup> string) \<Rightarrow> Blob option \<Rightarrow> js_exception + Request" where
  "new_Request pf url method headers body =
     (if Request_refuses pf method headers then Inl (JsTypeError ''Invalid request'')
      else Inr \<lparr> req_url = url, req_method = method,
                 req_headers =
                   (case body of
                      None \<Rightarrow> headers
                    | Some b \<Rightarrow>
                        if headers ''content-type'' = None \<and> blob_type b \<noteq> []
                        then headers(''content-type'' \<mapsto> blob_type b) else headers),
                 req_body = body \<rparr>)"

text \<open>
  \<^verbatim>\<open>incomingMessageToRequest\<close>. The URL is built first, inside the promise executor:
  if \<^verbatim>\<open>new URL\<close> throws, the promise rejects. For GET and HEAD the request is built
  inside the executor as well. For the other methods it is built inside the \<^verbatim>\<open>end\<close>
  listener: an exception of \<^verbatim>\<open>new Request\<close> there is raised in the listener, and the
  promise never settles.
\<close>

definition incomingMessageToRequest ::
  "platform \<Rightarrow> IncomingMessage \<Rightarrow> 'd IServeOptions \<Rightarrow> Request promise" where
  "incomingMessageToRequest pf req options =
     (let method = msg_method req
      in case new_URL pf ((if tls options \<noteq> None then ''https'' else ''http'') @ ''://''
                            @ host_text (msg_headers req) @ msg_url req) of
           Inl e \<Rightarrow> Rejected e
         | Inr url \<Rightarrow>
             (let headers = msg_headers req
              in if method \<noteq> ''GET'' \<and> method \<noteq> ''HEAD'' then
                   (case collect_chunks (msg_events req) [] of
                      Resolved chunks \<Rightarrow>
                        (case new_Request pf url method headers
                                (Some \<lparr> blob_bytes = concat chunks,
                                        blob_type = Blob_type (content_type headers) \<rparr>) of
                           Inl e \<Rightarrow> Pending
                         | Inr request \<Rightarrow> Resolved request)
                    | Rejected e \<Rightarrow> Rejected e
                    | Pending \<Rightarrow> Pending)
                 else (case new_Request pf url method headers None of
                         Inl e \<Rightarrow> Rejected e
                       | Inr request \<Rightarrow> Resolved request)))"

text \<open>The scheme of a URL string: what precedes its first colon.\<close>

definition url_scheme :: "string \<Rightarrow> string" where
  "url_scheme u = takeWhile (\<lambda>c. c \<noteq> CHR '':'') u"

text \<open>
  What a Node \<^verbatim>\<open>request\<close> listener does to its \<^verbatim>\<open>res\<close> object (and the console).
\<close>

datatype node_effect =
    Console_error js_exception
  | Res_writeHead nat string "string \<rightharpoonup> string"
  | Res_writeHead_status nat
  | Res_write bytes
  | Res_end "string option"
  | Stream_destroy js_exception

text \<open>\<^verbatim>\<open>Object.fromEntries\<close>: a later entry with the same key replaces an earlier one.\<close>

definition fromEntries :: "(string \<times> string) list \<Rightarrow> (string \<rightharpoonup> string)" where
  "fromEntries entries = map_of (rev entries)"

definition internal_server_error :: "js_exception \<Rightarrow> node_effect list" where
  "internal_server_error e =
     [Console_error e, Res_writeHead_status 500, Res_end (Some ''Internal Server Error'')]"

definition write_response :: "Response \<Rightarrow> node_effect list" where
  "write_response response =
     Res_writeHead (status response) (statusText response) (fromEntries (res_headers response))
     # (case res_body response of
          Some (chunks, failure) \<Rightarrow>
            map Res_write chunks
            @ (case failure of None \<Rightarrow> [Res_end None] | Some e \<Rightarrow> [Stream_destroy e])
        | None \<Rightarrow> [Res_end None])"

text \<open>
  The \<^verbatim>\<open>server.on("request", async (req, res) => { try { ... } catch { ... } })\<close>
  listener of \<^verbatim>\<open>nodeServe\<close>; \<open>req_handle\<close> is the identity of the \<^verbatim>\<open>req\<close> object.
\<close>

definition node_on_request ::
  "platform \<Rightarrow> 'd IServeOptions \<Rightarrow> nat \<Rightarrow> IncomingMessage \<Rightarrow> 'd requests
    \<Rightarrow> node_effect list \<times> 'd requests" where
  "node_on_request pf options req_handle req R =
     (case incomingMessageToRequest pf req options of
        Pending \<Rightarrow> ([], R)
      | Rejected e \<Rightarrow> (internal_server_error e, R)
      | Resolved request \<Rightarrow>
          (case run_handler (node_upgradeToWebSocket (wsHandler options) req_handle)
                  (handler options request) R of
             (Inl e, R') \<Rightarrow> (internal_server_error e, R')
           | (Inr response, R') \<Rightarrow> (write_response response, R')))"



section \<open>What the engines do with the adapters' callbacks\<close>

text \<open>
  The behaviour of the engines described here is not code of this repository; it is
  modelled from the documentation of \<^verbatim>\<open>node:http\<close>, of the \<^verbatim>\<open>ws\<close> package, of
  \<^verbatim>\<open>Bun.serve\<close> and of \<^verbatim>\<open>Deno.serve\<close>.

  Node. An incoming message that asks for a protocol upgrade is announced with the
  \<^verbatim>\<open>upgrade\<close> event when that event has a listener, and with \<^verbatim>\<open>request\<close> only
  when it has none. \<^verbatim>\<open>new WebSocketServer({ server })\<close> installs such a listener; it
  completes or refuses the handshake itself and announces an accepted socket with
  \<^verbatim>\<open>connection\<close>, passing the message of the \<^verbatim>\<open>upgrade\<close> event. So, once a socket
  handler is configured, the \<^verbatim>\<open>request\<close> listener of \<^verbatim>\<open>nodeServe\<close> (and with it
  the user handler) does not run for a WebSocket handshake. \<open>ws\<close> is the socket the
  \<^verbatim>\<open>ws\<close> package made for the handshake, \<open>None\<close> when it refused it.
\<close>

datatype 'd node_dispatch =
    Request_event "node_effect list"
  | Connection_event "js_exception + 'd IWebSocketHandlerOptions" "'d registrations"
  | Handshake_refused

definition node_incoming ::
  "platform \<Rightarrow> 'd IServeOptions \<Rightarrow> nat \<Rightarrow> IncomingMessage \<Rightarrow> nat option \<Rightarrow> 'd requests
    \<Rightarrow> 'd sockets \<Rightarrow> 'd node_dispatch \<times> 'd requests" where
  "node_incoming pf options req_handle req ws R s0 =
     (case (msg_headers req ''upgrade'', node_wss options) of
        (Some protocol, Some on_connection) \<Rightarrow>
          (case ws of
             None \<Rightarrow> (Handshake_refused, R)
           | Some w \<Rightarrow>
               (case on_connection w req_handle R s0 of
                  (opened, regs) \<Rightarrow> (Connection_event opened regs, R)))
      | _ \<Rightarrow>
          (case node_on_request pf options req_handle req R of
             (effects, R') \<Rightarrow> (Request_event effects, R')))"

text \<open>
  The calls the socket handler receives for a dispatched message and the notifications
  that follow on the socket \<open>w\<close>.
\<close>

definition dispatch_calls ::
  "nat \<Rightarrow> 'd node_dispatch \<Rightarrow> (native_event \<times> 'd sockets) list
    \<Rightarrow> (js_exception + 'd IWebSocketHandlerOptions) list" where
  "dispatch_calls w dispatched evs =
     (case dispatched of
        Connection_event opened regs \<Rightarrow> opened # deliver (emit regs w) evs
      | _ \<Rightarrow> [])"





section \<open>Observations and sample inputs\<close>

text \<open>The stop procedure behind \<^verbatim>\<open>close()\<close> of the server a call of \<^verbatim>\<open>serve\<close> returned.\<close>

definition close_procedure :: "serve_result \<Rightarrow> teardown_call list option" where
  "close_procedure r = (case returned r of Resolved srv \<Rightarrow> Some (srv_close srv) | _ \<Rightarrow> None)"

text \<open>Two handlers, an engine and a request used as concrete inputs below.\<close>

definition hello_handler :: "Request \<Rightarrow> string handler_run" where
  "hello_handler request =
     Respond \<lparr> status = 200, statusText = ''OK'', res_headers = [], res_body = None \<rparr>"


definition accepting_upgrade :: "Request \<Rightarrow> string \<Rightarrow> js_exception + bool" where
  "accepting_upgrade request data' = Inr True"

definition sample_options :: "(Request \<Rightarrow> string handler_run) \<Rightarrow> bool \<Rightarrow> bool \<Rightarrow> string IServeOptions" where
  "sample_options h with_signal with_wsHandler =
     \<lparr> handler = h, port = Some 8084, hostname = None, signal = with_signal, tls = None,
       reusePort = None, wsHandler = with_wsHandler \<rparr>"

definition sample_env :: engine_env where
  "sample_env =
     \<lparr> bun_server = Inr (''localhost'', 8084),
       deno_server = Inr \<lparr> transport = ''tcp'', addr_hostname = ''0.0.0.0'', addr_port = 8084 \<rparr>,
       node_listening = Inr (Some (AddressInfo ''::'' 8084)) \<rparr>"

definition sample_request :: Request where
  "sample_request =
     \<lparr> req_url = ''http://localhost:8084/'', req_method = ''GET'',
       req_headers = [''host'' \<mapsto> ''localhost:8084''], req_body = None \<rparr>"

text \<open>A handler that asks for the upgrade, as the tests of the repository do.\<close>

definition upgrading_handler :: "Request \<Rightarrow> string handler_run" where
  "upgrading_handler request =
     UpgradeToWebSocket ''test context''
       (\<lambda>result. Respond \<lparr> status = 101, statusText = [], res_headers = [], res_body = None \<rparr>)"

text \<open>
  A platform that knows the URLs of the sample messages and refuses the methods the
  Fetch standard forbids.
\<close>

definition sample_platform :: platform where
  "sample_platform =
     \<lparr> URL_parse = (\<lambda>text. if text = ''http://localhost:8084/users''
                                  \<or> text = ''http://localhost:8084/'' then Some text else None),
       Request_refuses = (\<lambda>method headers. method = ''TRACE'' \<or> method = ''CONNECT''
                                            \<or> method = ''TRACK'') \<rparr>"

definition sample_upgradeWebSocket :: "nat \<Rightarrow> js_exception + nat \<times> Response" where
  "sample_upgradeWebSocket n =
     Inr (1, \<lparr> status = 101, statusText = ''Switching Protocols'', res_headers = [],
               res_body = None \<rparr>)"

definition sample_sockets :: "string sockets" where
  "sample_sockets h =
     \<lparr> nat_readyState = 1, nat_binaryType = Some ''arraybuffer'', nat_bufferedAmount = 0,
       nat_data = Some ''ctx'', nat_send_calls = [], nat_close_calls = [] \<rparr>"

definition sample_events :: "(native_event \<times> string sockets) list" where
  "sample_events = [(Message_event (Text ''hi''), sample_sockets), (Close_event, sample_sockets)]"

text \<open>The handshake message of a WebSocket client.\<close>

definition sample_handshake :: IncomingMessage where
  "sample_handshake =
     \<lparr> msg_method = ''GET'', msg_url = ''/'',
       msg_headers = [''host'' \<mapsto> ''localhost:8084'', ''connection'' \<mapsto> ''Upgrade'',
                      ''upgrade'' \<mapsto> ''websocket''],
       msg_events = [End] \<rparr>"


section \<open>Auxiliary facts\<close>

lemma in_deliver_iff:
  "c \<in> set (deliver em evs) \<longleftrightarrow> (\<exists>ev s. (ev, s) \<in> set evs \<and> c \<in> set (em ev s))"
  by (auto simp: deliver_def)



lemma url_scheme_https: "url_scheme (''https://'' @ rest) = ''https''"
  by (simp add: url_scheme_def)

lemma url_scheme_http: "url_scheme (''http://'' @ rest) = ''http''"
  by (simp add: url_scheme_def)

lemma serve_known_runtime_invokes_engine:
  "runtime \<in> {Node, Deno, Bun} \<Longrightarrow> calls_made (serve runtime options env) \<noteq> []"
  by (auto simp: serve_def calls_made_def nodeServe_def denoServe_def bunServe_def Let_def
      split: sum.splits prod.splits)


subsection \<open>Socket adapters\<close>

lemma close_touches_one_socket:
  "h' \<noteq> h \<Longrightarrow>
     close (bunWebsocketToRuntimeSocket h) code reason s h' = s h'
   \<and> close (denoWebsocketToRuntimeSocket h) code reason s h' = s h'
   \<and> close (node_runtimeWs h s0) code reason s h' = s h'"
  by (simp add: bunWebsocketToRuntimeSocket_def denoWebsocketToRuntimeSocket_def
        node_runtimeWs_def)

lemma readyState_bun_deno_live:
  "invoke (readyState (bunWebsocketToRuntimeSocket h)) s = Inr (nat_readyState (s h))
   \<and> invoke (readyState (denoWebsocketToRuntimeSocket h)) s = Inr (nat_readyState (s h))
   \<and> invoke (binaryType (bunWebsocketToRuntimeSocket h)) s = Inr (nat_binaryType (s h))
   \<and> invoke (binaryType (denoWebsocketToRuntimeSocket h)) s = Inr (nat_binaryType (s h))"
  by (simp add: bunWebsocketToRuntimeSocket_def denoWebsocketToRuntimeSocket_def)

subsection \<open>Contexts of dispatched events\<close>

lemma node_connection_open_context:
  "wsHandler options \<Longrightarrow>
   \<exists>x. fst (node_on_connection options ws req R s0) = Inr x \<and> context' x = R req \<and> event x = Open"
  by (simp add: node_on_connection_def Let_def call_wsHandler_def)

lemma node_connection_emit_context:
  "wsHandler options \<Longrightarrow> c \<in> set (emit (snd (node_on_connection options ws req R s0)) h ev s)
   \<Longrightarrow> \<exists>x. c = Inr x \<and> context' x = R req"
  by (auto simp: node_on_connection_def Let_def call_wsHandler_def emit_def split: if_splits)

lemma deno_listeners_context:
  "wsHandler options \<Longrightarrow> c \<in> set (emit (deno_listeners options sock d) h ev s)
   \<Longrightarrow> \<exists>x. c = Inr x \<and> context' x = Some d"
  by (auto simp: deno_listeners_def Let_def call_wsHandler_def emit_def split: if_splits)

lemma deno_upgrade_fresh_registered:
  "deno_upgradeToWebSocket options up d deno_request_fresh = (Inr True, st)
   \<Longrightarrow> \<exists>sock. registered st = deno_listeners options sock d"
  by (auto simp: deno_upgradeToWebSocket_def deno_request_fresh_def Let_def
      split: sum.splits prod.splits option.splits)

text \<open>
  Once a Deno request carries its handshake response, a further invocation of the
  capability neither succeeds nor registers listeners: the listeners of the connection,
  and with them the context they carry, stay as the first invocation made them.
\<close>

lemma deno_upgrade_again_keeps_listeners:
  "stupidDenoResponseMember st \<noteq> None \<Longrightarrow>
   registered (snd (deno_upgradeToWebSocket options up d2 st)) = registered st
   \<and> fst (deno_upgradeToWebSocket options up d2 st) \<noteq> Inr True"
  by (auto simp: deno_upgradeToWebSocket_def Let_def split: sum.splits prod.splits option.splits)

lemma bun_emit_context:
  "c \<in> set (bun_emit options ws ev s) \<Longrightarrow> \<exists>x. c = Inr x \<and> context' x = nat_data (s ws)"
  by (auto simp: bun_emit_def bun_websocket_def call_wsHandler_def split: if_splits option.splits)

subsection \<open>Socket errors on Node\<close>

text \<open>
  The Node adapter listens for \<^verbatim>\<open>error\<close> and hands the cause to the socket handler,
  together with the context of the connection.
\<close>

lemma node_socket_error_dispatched:
  "emit (snd (node_on_connection options ws req R s0)) ws (Error_event e) s
     = [call_wsHandler options
          \<lparr> websocket = node_runtimeWs ws s0, event = Error, data = None, error = Some e,
            context' = R req \<rparr>]"
  by (simp add: emit_def node_on_connection_def Let_def)

subsection \<open>Failing handlers\<close>





subsection \<open>WebSocket handshakes on Node\<close>

text \<open>
  With a socket handler configured, a handshake message reaches the \<^verbatim>\<open>connection\<close>
  callback and not the \<^verbatim>\<open>request\<close> listener: no handler runs, no request object is
  written to, and the context of the connection is whatever \<^verbatim>\<open>upgradeData\<close> the
  message of the handshake already had.
\<close>

lemma node_handshake_skips_handler:
  "msg_headers req ''upgrade'' = Some protocol \<Longrightarrow> wsHandler options \<Longrightarrow>
   node_incoming pf options h req (Some w) R s0
     = (Connection_event (fst (node_on_connection options w h R s0))
          (snd (node_on_connection options w h R s0)), R)"
  by (simp add: node_incoming_def node_wss_def split: prod.splits)

lemma node_handshake_context:
  assumes "msg_headers req ''upgrade'' = Some protocol" and "wsHandler options"
    and "c \<in> set (dispatch_calls w (fst (node_incoming pf options h req (Some w) R s0)) evs)"
  shows "\<exists>x. c = Inr x \<and> context' x = R h"
proof -
  from assms(3) node_handshake_skips_handler [OF assms(1,2)]
  have "c = fst (node_on_connection options w h R s0)
        \<or> c \<in> set (deliver (emit (snd (node_on_connection options w h R s0)) w) evs)"
    by (simp add: dispatch_calls_def)
  then show ?thesis
  proof
    assume "c = fst (node_on_connection options w h R s0)"
    with node_connection_open_context [OF assms(2), of w h R s0] show ?thesis by auto
  next
    assume "c \<in> set (deliver (emit (snd (node_on_connection options w h R s0)) w) evs)"
    then obtain ev s where "c \<in> set (emit (snd (node_on_connection options w h R s0)) w ev s)"
      by (auto simp: in_deliver_iff)
    from node_connection_emit_context [OF assms(2) this] show ?thesis .
  qed
qed

text \<open>
  Deno, for comparison: the listeners registered by the invocation that upgraded the
  request carry the value that invocation was given.
\<close>

lemma deno_context_threaded:
  assumes "wsHandler options"
    and up: "deno_upgradeToWebSocket options upgradeWebSocket d deno_request_fresh = (Inr True, st)"
    and c: "c \<in> set (deliver (emit (registered st) sock) evs)"
  shows "\<exists>x. c = Inr x \<and> context' x = Some d"
proof -
  from deno_upgrade_fresh_registered [OF up] obtain h where h: "registered st = deno_listeners options h d"
    by blast
  from c obtain ev s where "c \<in> set (emit (registered st) sock ev s)"
    by (auto simp: in_deliver_iff)
  with h deno_listeners_context [OF assms(1)] show ?thesis
    by simp
qed

section \<open>The claims\<close>

text \<open>
  C6. When the detected runtime is unknown, \<^verbatim>\<open>serve\<close> throws the error
  \<^verbatim>\<open>Could not determine runtime.\<close> and has invoked no engine: no server was created
  and no listener was started.
\<close>

theorem serve_unknown_runtime_fails_fast:
  "serve Unknown options env = Inl (JsError ''Could not determine runtime.'')
   \<and> calls_made (serve Unknown options env) = []"
  by (simp add: serve_def calls_made_def)

text \<open>
  C10. When the detected runtime is the browser, \<^verbatim>\<open>serve\<close> throws the error
  \<^verbatim>\<open>There is not serve for the browser.\<close>, which is not the failure of the unknown
  runtime, and has invoked no engine.
\<close>

theorem serve_browser_unsupported:
  "serve Browser options env = Inl (JsError ''There is not serve for the browser.'')
   \<and> calls_made (serve Browser options env) = []
   \<and> serve Browser options env \<noteq> serve Unknown options env"
  by (simp add: serve_def calls_made_def)




text \<open>
  C8. On each of the three adapters, \<^verbatim>\<open>close(code, reason)\<close> invokes the engine's
  close primitive on the adapted socket with exactly that code and that reason, an
  omitted argument staying omitted. No adapter supplies a code of its own: after
  \<^verbatim>\<open>close()\<close> the primitive has been invoked with no code and no reason, on Node and
  Deno as on Bun, so the close code the peer observes is whatever the engine makes of a
  close without a code.
\<close>

theorem close_forwards_code_and_reason:
  "nat_close_calls (close (bunWebsocketToRuntimeSocket h) code reason s h)
     = nat_close_calls (s h) @ [(code, reason)]
   \<and> nat_close_calls (close (denoWebsocketToRuntimeSocket h) code reason s h)
     = nat_close_calls (s h) @ [(code, reason)]
   \<and> nat_close_calls (close (node_runtimeWs h s0) code reason s h)
     = nat_close_calls (s h) @ [(code, reason)]"
  by (simp add: bunWebsocketToRuntimeSocket_def denoWebsocketToRuntimeSocket_def
        node_runtimeWs_def native_close_def)

text \<open>
  C3, on the Node adapter. The \<^verbatim>\<open>readyState\<close> and \<^verbatim>\<open>binaryType\<close> members of the
  socket handed to the socket handler are the values read when the connection was
  established, not functions: invoking either, as the interface
  \<^verbatim>\<open>readyState(): RuntimeWebSocketReadyState\<close> announces and the Bun and Deno
  adapters allow (\<open>readyState_bun_deno_live\<close>), throws a \<^verbatim>\<open>TypeError\<close>, whatever
  the state of the socket.
\<close>

theorem node_readyState_not_callable:
  "invoke (readyState (node_runtimeWs ws s0)) s = Inl (JsTypeError ''is not a function'')
   \<and> invoke (binaryType (node_runtimeWs ws s0)) s = Inl (JsTypeError ''is not a function'')"
  by (simp add: node_runtimeWs_def)

text \<open>
  C4, on the Deno and Bun adapters. The listeners \<^verbatim>\<open>denoServe\<close> registers on an
  upgraded socket are those for \<^verbatim>\<open>open\<close>, \<^verbatim>\<open>message\<close> and \<^verbatim>\<open>close\<close>, and the
  handler object given to \<^verbatim>\<open>Bun.serve\<close> has the same three keys: an \<^verbatim>\<open>error\<close>
  notification of the engine reaches no listener, and the socket handler receives nothing
  for it. The Node adapter dispatches an Error event with the cause
  (\<open>node_socket_error_dispatched\<close>).
\<close>

theorem deno_socket_error_dropped:
  "emit (registered (snd (deno_upgradeToWebSocket options upgradeWebSocket d deno_request_fresh)))
     sock (Error_event e) s = []
   \<and> bun_emit options ws (Error_event e) s = []"
  by (auto simp: deno_upgradeToWebSocket_def deno_request_fresh_def Let_def emit_def
        deno_listeners_def bun_emit_def bun_websocket_def
      split: sum.splits prod.splits option.splits)

text \<open>
  C2, on the Node adapter. A server is started with a socket handler and a handler that
  invokes \<^verbatim>\<open>upgradeToWebSocket("test context")\<close>; a WebSocket client connects and
  then sends a message and closes. The handshake goes to the \<^verbatim>\<open>connection\<close> callback
  without the handler ever running, \<^verbatim>\<open>upgradeData\<close> is never stored on the message of
  the handshake, and the Open, Message and Close calls the socket handler receives all
  carry the context \<^verbatim>\<open>undefined\<close>. On Deno the listeners carry the value the
  capability was given (\<open>deno_context_threaded\<close>).
\<close>

theorem node_context_undefined:
  "map (map_sum id context')
     (dispatch_calls 1
        (fst (node_incoming sample_platform (sample_options upgrading_handler False True) 7
                sample_handshake (Some 1) Map.empty sample_sockets))
        sample_events)
     = [Inr None, Inr None, Inr None]
   \<and> snd (node_incoming sample_platform (sample_options upgrading_handler False True) 7
            sample_handshake (Some 1) Map.empty sample_sockets) 7 = None"
  by (simp add: node_incoming_def node_wss_def node_on_connection_def dispatch_calls_def
        deliver_def emit_def call_wsHandler_def sample_handshake_def sample_options_def
        sample_events_def Let_def)

text \<open>
  C1, as stated, at Node with no socket handler configured: the capability does not
  return \<^verbatim>\<open>false\<close>, it throws.
\<close>

theorem upgradeToWebSocket_no_handler_counterexample:
  "fst (node_upgradeToWebSocket (wsHandler (sample_options hello_handler False False)) 0 ''ctx''
          Map.empty)
     = Inl (JsError ''WebSocket server not initialized'')"
  by (simp add: node_upgradeToWebSocket_def sample_options_def)

text \<open>
  C1, amended.
  \<^item> Node: when \<^verbatim>\<open>serve\<close> was called with no socket handler, an invocation of the
    capability fails by throwing \<^verbatim>\<open>WebSocket server not initialized\<close> and leaves the
    request untouched; with a socket handler it stores the context on the request and
    returns \<^verbatim>\<open>true\<close>.
  \<^item> Bun, with a socket handler configured: it returns \<^verbatim>\<open>true\<close> when
    \<^verbatim>\<open>server.upgrade\<close> accepts the upgrade, and throws what \<^verbatim>\<open>server.upgrade\<close>
    throws.
  \<^item> Deno, with a socket handler configured: it throws what
    \<^verbatim>\<open>Deno.upgradeWebSocket\<close> throws, returns \<^verbatim>\<open>true\<close> when that call returns and
    the request was not upgraded before, and throws a \<^verbatim>\<open>TypeError\<close> when it was.
\<close>

theorem upgradeToWebSocket_outcomes:
  "node_upgradeToWebSocket (wsHandler options) req d R
     = (if wsHandler options then (Inr True, R(req := Some d))
        else (Inl (JsError ''WebSocket server not initialized''), R))
   \<and> (wsHandler options \<and> server_upgrade request d = Inr True
        \<longrightarrow> fst (bun_upgradeToWebSocket server_upgrade request d calls) = Inr True)
   \<and> (wsHandler options \<and> server_upgrade request d = Inl e
        \<longrightarrow> fst (bun_upgradeToWebSocket server_upgrade request d calls) = Inl e)
   \<and> (wsHandler options
        \<longrightarrow> fst (deno_upgradeToWebSocket options upgradeWebSocket d st)
            = (case upgradeWebSocket (upgradeWebSocket_calls st) of
                 Inl e \<Rightarrow> Inl e
               | Inr accepted \<Rightarrow>
                   if stupidDenoResponseMember st = None then Inr True
                   else Inl (JsTypeError ''Cannot redefine property: stupidDenoResponseMember'')))"
  by (auto simp: node_upgradeToWebSocket_def bun_upgradeToWebSocket_def
        deno_upgradeToWebSocket_def Let_def split: sum.splits prod.splits option.splits)

theorem upgradeToWebSocket_outcomes_witness:
  "wsHandler (sample_options hello_handler False True)
   \<and> \<not> wsHandler (sample_options hello_handler False False)
   \<and> accepting_upgrade sample_request ''ctx'' = Inr True
   \<and> node_upgradeToWebSocket (wsHandler (sample_options hello_handler False False)) 7 ''ctx''
        Map.empty
       = (Inl (JsError ''WebSocket server not initialized''), Map.empty)
   \<and> fst (node_upgradeToWebSocket (wsHandler (sample_options hello_handler False True)) 7 ''ctx''
            Map.empty) = Inr True
   \<and> fst (bun_upgradeToWebSocket accepting_upgrade sample_request ''ctx'' []) = Inr True
   \<and> fst (deno_upgradeToWebSocket (sample_options hello_handler False True)
            sample_upgradeWebSocket ''ctx'' deno_request_fresh) = Inr True"
proof -
  have w: "wsHandler (sample_options hello_handler False True)"
    and n: "\<not> wsHandler (sample_options hello_handler False False)"
    by (simp_all add: sample_options_def)
  have a: "accepting_upgrade sample_request ''ctx'' = Inr True"
    by (simp add: accepting_upgrade_def)
  note configured = upgradeToWebSocket_outcomes [where options = "sample_options hello_handler False True"
      and req = 7 and d = "''ctx''" and R = Map.empty and server_upgrade = accepting_upgrade
      and request = sample_request and calls = "[]" and e = "JsError ''refused''"
      and upgradeWebSocket = sample_upgradeWebSocket and st = deno_request_fresh]
  note unconfigured = upgradeToWebSocket_outcomes [where options = "sample_options hello_handler False False"
      and req = 7 and d = "''ctx''" and R = Map.empty and server_upgrade = accepting_upgrade
      and request = sample_request and calls = "[]" and e = "JsError ''refused''"
      and upgradeWebSocket = sample_upgradeWebSocket and st = deno_request_fresh]
  from configured unconfigured w n a show ?thesis
    by (simp add: sample_upgradeWebSocket_def deno_request_fresh_def)
qed

text \<open>
  C5, as stated, at Deno with an abort signal supplied: \<^verbatim>\<open>close()\<close> invokes
  \<^verbatim>\<open>server.shutdown()\<close>, and the adapter installs no listener on the signal at all.
\<close>

theorem abort_same_as_close_counterexample:
  "signal (sample_options hello_handler True False)
   \<and> close_procedure (denoServe (sample_options hello_handler True False) sample_env)
       = Some [Deno_server_shutdown]
   \<and> abort_listener (denoServe (sample_options hello_handler True False) sample_env) = None"
  by (simp add: sample_options_def sample_env_def denoServe_def close_procedure_def)

text \<open>
  C5, amended. With an abort signal supplied:
  \<^item> Bun: the listener installed on the signal and \<^verbatim>\<open>close()\<close> are the same procedure,
    \<^verbatim>\<open>server.stop(true)\<close>;
  \<^item> Node: both invoke \<^verbatim>\<open>wss?.close()\<close> and then \<^verbatim>\<open>server.close\<close>;
    \<^verbatim>\<open>close()\<close> passes a completion callback to it, the listener on the signal none;
  \<^item> Deno: the adapter installs no listener on the signal; it hands the signal to
    \<^verbatim>\<open>Deno.serve\<close>, and \<^verbatim>\<open>close()\<close> invokes \<^verbatim>\<open>server.shutdown()\<close>.
\<close>

theorem abort_and_close_teardown:
  assumes "signal options"
  shows "(bun_server env = Inr b \<longrightarrow>
            abort_listener (bunServe options env) = Some [Bun_server_stop True]
            \<and> close_procedure (bunServe options env) = Some [Bun_server_stop True])
       \<and> (node_listening env = Inr (Some (AddressInfo a p)) \<longrightarrow>
            abort_listener (nodeServe options env)
              = Some (wss_close (wsHandler options) @ [Node_server_close False])
            \<and> close_procedure (nodeServe options env)
              = Some (wss_close (wsHandler options) @ [Node_server_close True]))
       \<and> (deno_server env = Inr n \<longrightarrow>
            abort_listener (denoServe options env) = None
            \<and> (\<exists>params. engine_calls (denoServe options env) = [Deno_serve params] \<and> dp_signal params)
            \<and> close_procedure (denoServe options env) = Some [Deno_server_shutdown])"
  using assms
  by (auto simp: bunServe_def nodeServe_def denoServe_def close_procedure_def Let_def
      split: prod.splits)

theorem abort_and_close_teardown_witness:
  "signal (sample_options hello_handler True True)
   \<and> abort_listener (bunServe (sample_options hello_handler True True) sample_env)
       = Some [Bun_server_stop True]
   \<and> close_procedure (bunServe (sample_options hello_handler True True) sample_env)
       = Some [Bun_server_stop True]
   \<and> abort_listener (nodeServe (sample_options hello_handler True True) sample_env)
       = Some [Wss_close, Node_server_close False]
   \<and> close_procedure (nodeServe (sample_options hello_handler True True) sample_env)
       = Some [Wss_close, Node_server_close True]
   \<and> abort_listener (denoServe (sample_options hello_handler True True) sample_env) = None
   \<and> close_procedure (denoServe (sample_options hello_handler True True) sample_env)
       = Some [Deno_server_shutdown]"
proof -
  have s: "signal (sample_options hello_handler True True)"
    by (simp add: sample_options_def)
  have w: "wsHandler (sample_options hello_handler True True)"
    by (simp add: sample_options_def)
  have b: "bun_server sample_env = Inr (''localhost'', 8084)"
    and n: "node_listening sample_env = Inr (Some (AddressInfo ''::'' 8084))"
    and d: "deno_server sample_env
              = Inr \<lparr> transport = ''tcp'', addr_hostname = ''0.0.0.0'', addr_port = 8084 \<rparr>"
    by (simp_all add: sample_env_def)
  from abort_and_close_teardown [OF s, of sample_env "(''localhost'', 8084)" "''::''" 8084
         "\<lparr> transport = ''tcp'', addr_hostname = ''0.0.0.0'', addr_port = 8084 \<rparr>"] b n d w s
  show ?thesis by (simp add: wss_close_def)
qed



end
